theory Spec2Isabelle
  imports Main
begin

section \<open>The complaints table (setup-database.sql)\<close>

text \<open>
  Identifiers (UUIDs) and timestamps are natural numbers. The object \<open>dbComplaint\<close> that
  \<open>addComplaint\<close> sends to the store holds the columns the client supplies; a stored row
  adds the three columns the table fills in by itself: \<open>id\<close> (\<open>gen_random_uuid()\<close>),
  \<open>created_at\<close> and \<open>updated_at\<close> (both \<open>DEFAULT NOW()\<close>). Nullable columns are
  options. \<open>status\<close> and \<open>priority\<close> are \<open>TEXT NOT NULL\<close> with no \<open>CHECK\<close>
  constraint, so they are strings.
\<close>

type_synonym uuid = nat
type_synonym timestamp = nat

record dbComplaint =
  title :: string
  description :: string
  category :: string
  location :: string
  photo :: "string option"
  contact_info :: string
  status :: string
  priority :: string
  admin_notes :: "string option"
  respondent :: "string option"
  user_id :: "uuid option"
  user_name :: "string option"
  date_submitted :: timestamp

record row = dbComplaint +
  row_id :: uuid
  created_at :: timestamp
  updated_at :: timestamp

text \<open>
  The store: the rows of \<open>complaints\<close> in the order they were inserted, and the supply
  of fresh identifiers.
\<close>

record db =
  rows :: "row list"
  next_id :: uuid

text \<open>
  The caller as the store sees it: \<open>session.user\<close> of the identity provider, with its
  \<open>id\<close>, \<open>email\<close> and the \<open>user_metadata\<close> fields \<open>role\<close> and \<open>name\<close>. No session is
  \<open>None\<close>.
\<close>

record session_user =
  uid :: uuid
  email :: "string option"
  role :: "string option"
  name :: "string option"

type_synonym session = "session_user option"

datatype db_error =
  PGRST116      \<comment> \<open>\<open>.single()\<close>: the result does not hold exactly one row\<close>
| RLS_42501     \<comment> \<open>new row violates row-level security policy\<close>

subsection \<open>Row-level security policies\<close>

text \<open>\<open>auth.uid() = user_id\<close>: false when either side is null.\<close>

definition own_row :: "session \<Rightarrow> 'a dbComplaint_scheme \<Rightarrow> bool" where
  "own_row s r = (case s of None \<Rightarrow> False | Some u \<Rightarrow> user_id r = Some (uid u))"

text \<open>\<open>(auth.jwt() -> 'user_metadata' ->> 'role') = 'admin'\<close>.\<close>

definition jwt_admin :: "session \<Rightarrow> bool" where
  "jwt_admin s = (case s of None \<Rightarrow> False | Some u \<Rightarrow> role u = Some ''admin'')"

text \<open>
  Policies of one command are permissive, so they are joined by \<open>or\<close>:
  "Users can view their own complaints" and "Admins can view all complaints" for
  \<open>SELECT\<close>; "Users can insert their own complaints" and "Guests can insert complaints"
  for \<open>INSERT\<close>; "Users can update their own complaints" and "Admins can update all
  complaints" for \<open>UPDATE\<close> (the admin policy has no \<open>WITH CHECK\<close>, which then is its
  \<open>USING\<close> expression).
\<close>

definition policy_select :: "session \<Rightarrow> 'a dbComplaint_scheme \<Rightarrow> bool" where
  "policy_select s r = (own_row s r \<or> jwt_admin s)"

definition policy_insert_check :: "session \<Rightarrow> 'a dbComplaint_scheme \<Rightarrow> bool" where
  "policy_insert_check s r = (own_row s r \<or> user_id r = None)"

definition policy_update_using :: "session \<Rightarrow> 'a dbComplaint_scheme \<Rightarrow> bool" where
  "policy_update_using s r = (own_row s r \<or> jwt_admin s)"

definition policy_update_check :: "session \<Rightarrow> 'a dbComplaint_scheme \<Rightarrow> bool" where
  "policy_update_check s r = (own_row s r \<or> jwt_admin s)"

subsection \<open>The three statements the client issues\<close>

text \<open>
  \<open>SELECT\<close>: rows that fail the \<open>SELECT\<close> policies are left out silently.
\<close>

definition select_rows :: "session \<Rightarrow> (row \<Rightarrow> bool) \<Rightarrow> db \<Rightarrow> row list" where
  "select_rows s wh d = filter (\<lambda>r. policy_select s r \<and> wh r) (rows d)"

text \<open>
  \<open>.insert([dbComplaint]).select().single()\<close> is \<open>INSERT ... RETURNING *\<close>. The new row
  must pass the \<open>INSERT\<close> policies' \<open>WITH CHECK\<close>; because the statement returns the row,
  PostgreSQL also applies the \<open>SELECT\<close> policies to it, and a row the caller may not read
  is refused with the same error. A row that is accepted is appended and takes the next
  identifier and the store's time \<open>now\<close> in \<open>created_at\<close> and \<open>updated_at\<close>.
\<close>

definition new_row :: "uuid \<Rightarrow> timestamp \<Rightarrow> dbComplaint \<Rightarrow> row" where
  "new_row i now c = dbComplaint.extend c (row.fields i now now)"

definition insert_returning :: "session \<Rightarrow> timestamp \<Rightarrow> dbComplaint \<Rightarrow> db \<Rightarrow> db_error + (row \<times> db)" where
  "insert_returning s now c d =
     (let r = new_row (next_id d) now c in
      if \<not> policy_insert_check s r then Inl RLS_42501
      else if \<not> policy_select s r then Inl RLS_42501
      else Inr (r, d\<lparr>rows := rows d @ [r], next_id := Suc (next_id d)\<rparr>))"

text \<open>
  The columns an \<open>UPDATE\<close> sets (\<open>dbUpdates\<close> of \<open>updateComplaint\<close>): \<open>None\<close> is a key
  that is absent from the object.
\<close>

record dbUpdates =
  set_title :: "string option"
  set_description :: "string option"
  set_category :: "string option"
  set_location :: "string option"
  set_photo :: "string option"
  set_contact_info :: "string option"
  set_status :: "string option"
  set_priority :: "string option"
  set_admin_notes :: "string option"
  set_respondent :: "string option"

definition no_columns :: "dbUpdates \<Rightarrow> bool" where
  "no_columns u = (set_title u = None \<and> set_description u = None \<and> set_category u = None \<and>
     set_location u = None \<and> set_photo u = None \<and> set_contact_info u = None \<and>
     set_status u = None \<and> set_priority u = None \<and> set_admin_notes u = None \<and>
     set_respondent u = None)"

definition set_columns :: "dbUpdates \<Rightarrow> row \<Rightarrow> row" where
  "set_columns u r = r\<lparr>
     title := (case set_title u of None \<Rightarrow> title r | Some v \<Rightarrow> v),
     description := (case set_description u of None \<Rightarrow> description r | Some v \<Rightarrow> v),
     category := (case set_category u of None \<Rightarrow> category r | Some v \<Rightarrow> v),
     location := (case set_location u of None \<Rightarrow> location r | Some v \<Rightarrow> v),
     photo := (case set_photo u of None \<Rightarrow> photo r | Some v \<Rightarrow> Some v),
     contact_info := (case set_contact_info u of None \<Rightarrow> contact_info r | Some v \<Rightarrow> v),
     status := (case set_status u of None \<Rightarrow> status r | Some v \<Rightarrow> v),
     priority := (case set_priority u of None \<Rightarrow> priority r | Some v \<Rightarrow> v),
     admin_notes := (case set_admin_notes u of None \<Rightarrow> admin_notes r | Some v \<Rightarrow> Some v),
     respondent := (case set_respondent u of None \<Rightarrow> respondent r | Some v \<Rightarrow> Some v)\<rparr>"

text \<open>The trigger \<open>update_complaints_updated_at\<close>: \<open>NEW.updated_at = NOW()\<close>.\<close>

definition update_updated_at_column :: "timestamp \<Rightarrow> row \<Rightarrow> row" where
  "update_updated_at_column now r = r\<lparr>updated_at := now\<rparr>"

text \<open>
  \<open>.update(dbUpdates).eq("id", id).select().single()\<close> is
  \<open>UPDATE ... WHERE id = ... RETURNING *\<close>. With no column to set, the REST layer issues no
  \<open>UPDATE\<close> and returns no row. Otherwise the statement sees the rows with that \<open>id\<close>
  that pass the \<open>SELECT\<close> and the \<open>UPDATE\<close> policies' \<open>USING\<close>; each new row runs through the
  trigger and must pass the \<open>UPDATE\<close> policies' \<open>WITH CHECK\<close> and the \<open>SELECT\<close> policies.
  \<open>.single()\<close> wants exactly one row back: with none there is nothing to write, and with
  several the statement is rolled back.
\<close>

definition update_target :: "session \<Rightarrow> uuid \<Rightarrow> row \<Rightarrow> bool" where
  "update_target s i r = (row_id r = i \<and> policy_select s r \<and> policy_update_using s r)"

definition update_returning :: "session \<Rightarrow> timestamp \<Rightarrow> uuid \<Rightarrow> dbUpdates \<Rightarrow> db \<Rightarrow> db_error + (row \<times> db)" where
  "update_returning s now i u d =
     (if no_columns u then Inl PGRST116
      else case filter (update_target s i) (rows d) of
        [r] \<Rightarrow>
          (let r' = update_updated_at_column now (set_columns u r) in
           if policy_update_check s r' \<and> policy_select s r'
           then Inr (r', d\<lparr>rows := map (\<lambda>x. if update_target s i x then r' else x) (rows d)\<rparr>)
           else Inl RLS_42501)
      | _ \<Rightarrow> Inl PGRST116)"

section \<open>The client (ComplaintProvider)\<close>

text \<open>
  \<open>complaintData\<close> is \<open>Omit<Complaint, "id" | "dateSubmitted">\<close>, \<open>Complaint\<close> adds the
  two fields, and \<open>updates\<close> is \<open>Partial<Complaint>\<close>: every field may be absent. The
  fields carry a prefix because \<open>title\<close>, \<open>status\<close> and others are column names too.
  Of the provider's state only \<open>complaints\<close> is kept; the \<open>loading\<close> flag, the toasts and
  the console output change nothing that is stored or returned.
\<close>

record complaintData =
  c_title :: string
  c_description :: string
  c_category :: string
  c_location :: string
  c_photo :: "string option"
  c_contactInfo :: string
  c_status :: string
  c_priority :: string
  c_adminNotes :: "string option"
  c_respondent :: "string option"
  c_userId :: "uuid option"
  c_userName :: "string option"

record Complaint = complaintData +
  c_id :: uuid
  c_dateSubmitted :: timestamp

record updates =
  u_id :: "uuid option"
  u_title :: "string option"
  u_description :: "string option"
  u_category :: "string option"
  u_location :: "string option"
  u_photo :: "string option"
  u_contactInfo :: "string option"
  u_status :: "string option"
  u_dateSubmitted :: "timestamp option"
  u_priority :: "string option"
  u_adminNotes :: "string option"
  u_respondent :: "string option"
  u_userId :: "uuid option"
  u_userName :: "string option"

text \<open>The transformation from snake case to camel case, used on every row read back.\<close>

definition toComplaint :: "row \<Rightarrow> Complaint" where
  "toComplaint r = \<lparr>c_title = title r, c_description = description r, c_category = category r,
     c_location = location r, c_photo = photo r, c_contactInfo = contact_info r,
     c_status = status r, c_priority = priority r, c_adminNotes = admin_notes r,
     c_respondent = respondent r, c_userId = user_id r, c_userName = user_name r,
     c_id = row_id r, c_dateSubmitted = date_submitted r\<rparr>"

subsection \<open>fetchComplaints\<close>

text \<open>
  \<open>.select("*").order("date_submitted", {ascending: false})\<close>, with
  \<open>.eq("user_id", user.id)\<close> added for a caller who is not an admin. The order among rows
  with the same \<open>date_submitted\<close> is not fixed by the store. The query cannot be refused
  (row-level security leaves rows out, it does not fail), so the \<open>error\<close> branch of
  \<open>fetchComplaints\<close> is there but the store of this model never takes it.
\<close>

definition order_date_submitted_desc :: "row list \<Rightarrow> row list" where
  "order_date_submitted_desc rs = rev (sort_key date_submitted rs)"

definition query_complaints :: "session_user \<Rightarrow> db \<Rightarrow> db_error + row list" where
  "query_complaints user d =
     (let isAdmin = (role user = Some ''admin'') in
      Inr (order_date_submitted_desc
             (select_rows (Some user) (\<lambda>r. isAdmin \<or> user_id r = Some (uid user)) d)))"

text \<open>
  The result is the new value of the local state \<open>complaints\<close>; the argument is its old
  value, which stays when the query fails.
\<close>

definition fetchComplaints :: "session \<Rightarrow> db \<Rightarrow> Complaint list \<Rightarrow> Complaint list" where
  "fetchComplaints s d complaints =
     (case s of
        None \<Rightarrow> []
      | Some user \<Rightarrow>
          (case query_complaints user d of
             Inl err \<Rightarrow> complaints
           | Inr data \<Rightarrow> map toComplaint data))"

subsection \<open>The anonymous handle\<close>

text \<open>
  JavaScript numbers are exact on the integers below \<open>2^53\<close>; the counter is a natural
  number here, which is the same thing up to that bound. Beyond it \<open>parseInt\<close> and the
  addition of one round to the nearest double, and from \<open>10^21\<close> on \<open>toString\<close> prints
  an exponent; \<open>parseInt\<close> and \<open>toString\<close> below say nothing about such counters, and the
  facts on what the handle means are stated for counters under \<open>2^53\<close>.
\<close>

definition is_digit :: "char \<Rightarrow> bool" where
  "is_digit c = (c \<in> set ''0123456789'')"

text \<open>
  The value of a digit is its place in the string of the ten digits, and the digit of a
  value below ten is the character at that place.
\<close>

definition digit_val :: "char \<Rightarrow> nat" where
  "digit_val c = length (takeWhile (\<lambda>x. x \<noteq> c) ''0123456789'')"

definition digit_char :: "nat \<Rightarrow> char" where
  "digit_char n = ''0123456789'' ! (n mod 10)"

text \<open>\<open>parseInt\<close> of a string of decimal digits.\<close>

definition parseInt :: "string \<Rightarrow> nat" where
  "parseInt ds = foldl (\<lambda>n c. 10 * n + digit_val c) 0 ds"

text \<open>\<open>Number.prototype.toString\<close> on a natural number.\<close>

function toString :: "nat \<Rightarrow> string" where
  "toString n = (if n < 10 then [digit_char n] else toString (n div 10) @ [digit_char (n mod 10)])"
  by pat_completeness auto
termination
  by (relation "measure id") auto

declare toString.simps [simp del]

definition padStart :: "nat \<Rightarrow> char \<Rightarrow> string \<Rightarrow> string" where
  "padStart w c s = replicate (w - length s) c @ s"

text \<open>
  \<open>user_name.match(/Anonymous(\d+)/)\<close>: the pattern is not anchored, so the leftmost
  place where \<open>Anonymous\<close> is followed by a digit matches, and the group takes all the
  digits that follow. The result is the group, or \<open>None\<close> for no match.
\<close>

definition match_here :: "string \<Rightarrow> string option" where
  "match_here s =
     (if take 9 s = ''Anonymous'' \<and> takeWhile is_digit (drop 9 s) \<noteq> []
      then Some (takeWhile is_digit (drop 9 s)) else None)"

fun match_Anonymous_digits :: "string \<Rightarrow> string option" where
  "match_Anonymous_digits [] = None"
| "match_Anonymous_digits (c # cs) =
     (case match_here (c # cs) of
        Some ds \<Rightarrow> Some ds
      | None \<Rightarrow> match_Anonymous_digits cs)"

text \<open>\<open>.like("user_name", "Anonymous%")\<close>; a null name matches nothing.\<close>

definition like_Anonymous :: "string option \<Rightarrow> bool" where
  "like_Anonymous n = (case n of None \<Rightarrow> False | Some s \<Rightarrow> take 9 s = ''Anonymous'')"

text \<open>
  \<open>.order("created_at", {ascending: false}).limit(1)\<close>: a row with the greatest
  \<open>created_at\<close>. Which one the store returns among several with the same time is not
  fixed; the model takes the one stored first.
\<close>

fun newest :: "row list \<Rightarrow> row option" where
  "newest [] = None"
| "newest (r # rs) =
     (case newest rs of
        None \<Rightarrow> Some r
      | Some b \<Rightarrow> if created_at r < created_at b then Some b else Some r)"

text \<open>
  The query for the last guest complaint; \<open>.single()\<close> on no row gives \<open>data = null\<close>,
  here \<open>None\<close>. The caller's \<open>SELECT\<close> policies apply as to any other read.
\<close>

definition lastGuest :: "session \<Rightarrow> db \<Rightarrow> row option" where
  "lastGuest s d =
     newest (select_rows s (\<lambda>r. user_id r = None \<and> like_Anonymous (user_name r)) d)"

definition nextNumber :: "row option \<Rightarrow> nat" where
  "nextNumber lg =
     (case lg of
        None \<Rightarrow> 1
      | Some r \<Rightarrow>
          (case user_name r of
             None \<Rightarrow> 1
           | Some n \<Rightarrow>
               if n = [] then 1
               else (case match_Anonymous_digits n of
                       None \<Rightarrow> 1
                     | Some ds \<Rightarrow> parseInt ds + 1)))"

definition anonymousName :: "nat \<Rightarrow> string" where
  "anonymousName n = ''Anonymous'' @ padStart 3 (CHR ''0'') (toString n)"

subsection \<open>addComplaint\<close>

text \<open>
  \<open>a || b || "Unknown User"\<close>: an absent or empty string is falsy.
\<close>

definition or_else :: "string option \<Rightarrow> string \<Rightarrow> string" where
  "or_else a b = (case a of None \<Rightarrow> b | Some v \<Rightarrow> if v = [] then b else v)"

definition session_userName :: "session_user \<Rightarrow> string" where
  "session_userName user = or_else (name user) (or_else (email user) ''Unknown User'')"

text \<open>
  The first half of \<open>addComplaint\<close>, up to the values of \<open>userName\<close> and \<open>userId\<close>.
  \<open>guestMode\<close> is \<open>localStorage.getItem("guestMode") === "true"\<close>. The guest branch reads
  the store; the other branch reads the session, which is there because the first check
  has passed (a missing user there would raise, and the \<open>catch\<close> would report it).
\<close>

definition addComplaint_submitter :: "session \<Rightarrow> bool \<Rightarrow> db \<Rightarrow> string + (string \<times> uuid option)" where
  "addComplaint_submitter s guestMode d =
     (if s = None \<and> \<not> guestMode then Inl ''You must be logged in to submit a complaint''
      else if guestMode then Inr (anonymousName (nextNumber (lastGuest s d)), None)
      else (case s of
              Some user \<Rightarrow> Inr (session_userName user, Some (uid user))
            | None \<Rightarrow> Inl ''Failed to submit complaint''))"

text \<open>The object sent to the store; \<open>clientNow\<close> is the browser's \<open>new Date()\<close>.\<close>

definition to_dbComplaint :: "complaintData \<Rightarrow> uuid option \<Rightarrow> string \<Rightarrow> timestamp \<Rightarrow> dbComplaint" where
  "to_dbComplaint cd userId userName clientNow =
     \<lparr>title = c_title cd, description = c_description cd, category = c_category cd,
      location = c_location cd, photo = c_photo cd, contact_info = c_contactInfo cd,
      status = c_status cd, priority = c_priority cd, admin_notes = c_adminNotes cd,
      respondent = c_respondent cd, user_id = userId, user_name = Some userName,
      date_submitted = clientNow\<rparr>"

text \<open>
  The second half: build the object, insert it, and on success put the returned row in
  front of the local state. \<open>now\<close> is the store's \<open>NOW()\<close> when the insert runs.
\<close>

definition addComplaint_insert ::
  "session \<Rightarrow> timestamp \<Rightarrow> timestamp \<Rightarrow> complaintData \<Rightarrow> string \<times> uuid option \<Rightarrow>
   db \<times> Complaint list \<Rightarrow> string option \<times> db \<times> Complaint list" where
  "addComplaint_insert s clientNow now cd who st =
     (case insert_returning s now (to_dbComplaint cd (snd who) (fst who) clientNow) (fst st) of
        Inl err \<Rightarrow> (Some ''Failed to submit complaint'', st)
      | Inr (data, d') \<Rightarrow> (None, d', toComplaint data # snd st))"

text \<open>
  The result is the \<open>error\<close> field of the object \<open>addComplaint\<close> returns (\<open>None\<close> for
  \<open>{}\<close>), the store and the local state \<open>complaints\<close> afterwards.
\<close>

definition addComplaint ::
  "session \<Rightarrow> bool \<Rightarrow> timestamp \<Rightarrow> timestamp \<Rightarrow> complaintData \<Rightarrow>
   db \<times> Complaint list \<Rightarrow> string option \<times> db \<times> Complaint list" where
  "addComplaint s guestMode clientNow now cd st =
     (case addComplaint_submitter s guestMode (fst st) of
        Inl e \<Rightarrow> (Some e, st)
      | Inr who \<Rightarrow> addComplaint_insert s clientNow now cd who st)"

subsection \<open>updateComplaint\<close>

definition to_dbUpdates :: "updates \<Rightarrow> dbUpdates" where
  "to_dbUpdates u = \<lparr>set_title = u_title u, set_description = u_description u,
     set_category = u_category u, set_location = u_location u, set_photo = u_photo u,
     set_contact_info = u_contactInfo u, set_status = u_status u, set_priority = u_priority u,
     set_admin_notes = u_adminNotes u, set_respondent = u_respondent u\<rparr>"

text \<open>
  \<open>{...complaint, ...updates, dateSubmitted: data.date_submitted}\<close> on the local copy.
\<close>

definition merge_updates :: "updates \<Rightarrow> row \<Rightarrow> Complaint \<Rightarrow> Complaint" where
  "merge_updates u data c = c\<lparr>
     c_id := (case u_id u of None \<Rightarrow> c_id c | Some v \<Rightarrow> v),
     c_title := (case u_title u of None \<Rightarrow> c_title c | Some v \<Rightarrow> v),
     c_description := (case u_description u of None \<Rightarrow> c_description c | Some v \<Rightarrow> v),
     c_category := (case u_category u of None \<Rightarrow> c_category c | Some v \<Rightarrow> v),
     c_location := (case u_location u of None \<Rightarrow> c_location c | Some v \<Rightarrow> v),
     c_photo := (case u_photo u of None \<Rightarrow> c_photo c | Some v \<Rightarrow> Some v),
     c_contactInfo := (case u_contactInfo u of None \<Rightarrow> c_contactInfo c | Some v \<Rightarrow> v),
     c_status := (case u_status u of None \<Rightarrow> c_status c | Some v \<Rightarrow> v),
     c_priority := (case u_priority u of None \<Rightarrow> c_priority c | Some v \<Rightarrow> v),
     c_adminNotes := (case u_adminNotes u of None \<Rightarrow> c_adminNotes c | Some v \<Rightarrow> Some v),
     c_respondent := (case u_respondent u of None \<Rightarrow> c_respondent c | Some v \<Rightarrow> Some v),
     c_userId := (case u_userId u of None \<Rightarrow> c_userId c | Some v \<Rightarrow> Some v),
     c_userName := (case u_userName u of None \<Rightarrow> c_userName c | Some v \<Rightarrow> Some v),
     c_dateSubmitted := date_submitted data\<rparr>"

text \<open>
  The only check the client makes is that a session exists; who may write what is left
  to the store's policies. Any error of the store comes back as the same message.
\<close>

definition updateComplaint ::
  "session \<Rightarrow> timestamp \<Rightarrow> uuid \<Rightarrow> updates \<Rightarrow>
   db \<times> Complaint list \<Rightarrow> string option \<times> db \<times> Complaint list" where
  "updateComplaint s now i u st =
     (case s of
        None \<Rightarrow> (Some ''You must be logged in to update a complaint'', st)
      | Some user \<Rightarrow>
          (case update_returning s now i (to_dbUpdates u) (fst st) of
             Inl err \<Rightarrow> (Some ''Failed to update complaint'', st)
           | Inr (data, d') \<Rightarrow>
               (None, d', map (\<lambda>c. if c_id c = i then merge_updates u data c else c) (snd st))))"

subsection \<open>The complaint form (handleSubmit)\<close>

text \<open>
  The state of the form when it is submitted. \<open>coordinates\<close> is left out: it is not a
  field of \<open>Complaint\<close> and \<open>addComplaint\<close> never reads it. The \<open>required\<close> attributes of
  the inputs belong to the browser; \<open>handleSubmit\<close> itself checks nothing.
\<close>

record ComplaintForm =
  f_title :: string
  f_description :: string
  f_category :: string
  f_location :: string
  f_photo :: "string option"
  f_contactInfo :: string
  f_respondent :: string

definition requiresRespondent :: "string \<Rightarrow> bool" where
  "requiresRespondent cat = (cat = ''civil-disputes'' \<or> cat = ''minor-criminal'')"

definition handleSubmit :: "ComplaintForm \<Rightarrow> complaintData" where
  "handleSubmit f =
     \<lparr>c_title = f_title f, c_description = f_description f, c_category = f_category f,
      c_location = f_location f,
      c_photo = (case f_photo f of None \<Rightarrow> None | Some p \<Rightarrow> if p = [] then None else Some p),
      c_contactInfo = f_contactInfo f,
      c_status = ''pending'',
      c_priority = (if f_category f = ''emergency'' then ''high'' else ''medium''),
      c_adminNotes = None,
      c_respondent = (if requiresRespondent (f_category f) then Some (f_respondent f) else None),
      c_userId = None, c_userName = None\<rparr>"

section \<open>The change notifier\<close>

text \<open>
  Modelled from the spec: the publishing side of the Change Notifier (section 4.4 of the
  spec). The repository holds its subscriber only, the channel \<open>complaints-changes\<close>
  of \<open>ComplaintProvider\<close>, which fetches the list again on every signal; nothing in it
  publishes, and its SQL puts no table into a publication. The spec: "publish() called
  once per committed mutation (insert or update)". A statement the store refuses commits
  nothing, so nothing is published for it.
\<close>

definition publish_count :: "db_error + (row \<times> db) \<Rightarrow> nat" where
  "publish_count outcome = (case outcome of Inl err \<Rightarrow> 0 | Inr written \<Rightarrow> 1)"

text \<open>
  Modelled from the spec: what one call of \<open>updateComplaint\<close> makes that notifier
  publish. The call sends one statement to the store, or none when there is no session.
\<close>

definition updateComplaint_publishes :: "session \<Rightarrow> timestamp \<Rightarrow> uuid \<Rightarrow> updates \<Rightarrow> db \<Rightarrow> nat" where
  "updateComplaint_publishes s now i u d =
     (case s of
        None \<Rightarrow> 0
      | Some user \<Rightarrow> publish_count (update_returning s now i (to_dbUpdates u) d))"

section \<open>Callers, stores and submissions used as examples\<close>

text \<open>The store a call leaves behind.\<close>

definition store_of :: "string option \<times> db \<times> Complaint list \<Rightarrow> db" where
  "store_of res = fst (snd res)"

definition admin1 :: session_user where
  "admin1 = \<lparr>uid = 1, email = Some ''kap@brgy.ph'', role = Some ''admin'', name = Some ''Kapitan''\<rparr>"

definition admin2 :: session_user where
  "admin2 = \<lparr>uid = 2, email = Some ''sec@brgy.ph'', role = Some ''admin'', name = None\<rparr>"

definition resident7 :: session_user where
  "resident7 = \<lparr>uid = 7, email = Some ''ana@mail.ph'', role = None, name = Some ''Ana''\<rparr>"

definition resident8 :: session_user where
  "resident8 = \<lparr>uid = 8, email = Some ''ben@mail.ph'', role = Some ''resident'', name = None\<rparr>"

definition empty_db :: db where
  "empty_db = \<lparr>rows = [], next_id = 0\<rparr>"

definition noise_report :: complaintData where
  "noise_report = \<lparr>c_title = ''Noise'', c_description = ''Loud videoke'',
     c_category = ''civil-disputes'', c_location = ''Purok 1'', c_photo = None,
     c_contactInfo = ''0917'', c_status = ''pending'', c_priority = ''medium'',
     c_adminNotes = None, c_respondent = Some ''Juan'', c_userId = None, c_userName = None\<rparr>"

text \<open>
  A dispute with every text field empty and no respondent at all.
\<close>

definition blank_dispute :: complaintData where
  "blank_dispute = \<lparr>c_title = [], c_description = [], c_category = ''civil-disputes'',
     c_location = [], c_photo = None, c_contactInfo = [], c_status = ''pending'',
     c_priority = ''medium'', c_adminNotes = None, c_respondent = None,
     c_userId = None, c_userName = None\<rparr>"

text \<open>An update that carries a status and nothing else, as the admin panel sends it.\<close>

definition status_only :: "string \<Rightarrow> updates" where
  "status_only v = \<lparr>u_id = None, u_title = None, u_description = None, u_category = None,
     u_location = None, u_photo = None, u_contactInfo = None, u_status = Some v,
     u_dateSubmitted = None, u_priority = None, u_adminNotes = None, u_respondent = None,
     u_userId = None, u_userName = None\<rparr>"

text \<open>The store after one resident has submitted one complaint.\<close>

definition one_complaint_db :: db where
  "one_complaint_db =
     store_of (addComplaint (Some resident7) False 10 11 noise_report (empty_db, []))"

text \<open>
  The store after two residents have submitted a complaint each and an admin, with the
  guest flag set, a third.
\<close>

definition sample_db :: db where
  "sample_db =
     store_of (addComplaint (Some admin1) True 30 31 noise_report
       (store_of (addComplaint (Some resident8) False 20 21 noise_report
          (one_complaint_db, [])), []))"

text \<open>
  Two submissions with the guest flag set that overlap: both have finished the first half
  of \<open>addComplaint\<close> on the empty store, where each has read the handle
  \<open>Anonymous001\<close>, before the first of them inserts.
\<close>

definition first_insert :: "string option \<times> db \<times> Complaint list" where
  "first_insert =
     addComplaint_insert (Some admin1) 10 11 noise_report (''Anonymous001'', None) (empty_db, [])"

definition second_insert :: "string option \<times> db \<times> Complaint list" where
  "second_insert =
     addComplaint_insert (Some admin2) 12 13 noise_report (''Anonymous001'', None)
       (store_of first_insert, [])"

text \<open>The one row of that store.\<close>

definition ana_row :: row where
  "ana_row = new_row 0 11 (to_dbComplaint noise_report (Some 7) ''Ana'' 10)"

text \<open>The form filled in for a dispute, with a respondent.\<close>

definition filled_form :: ComplaintForm where
  "filled_form = \<lparr>f_title = ''Fence'', f_description = ''Moved the fence'',
     f_category = ''minor-criminal'', f_location = ''Purok 2'', f_photo = None,
     f_contactInfo = ''0918'', f_respondent = ''Juan''\<rparr>"

text \<open>An update that sets status, priority and admin notes, and one that sets nothing.\<close>

definition triage_update :: updates where
  "triage_update = \<lparr>u_id = None, u_title = None, u_description = None, u_category = None,
     u_location = None, u_photo = None, u_contactInfo = None, u_status = Some ''resolved'',
     u_dateSubmitted = None, u_priority = Some ''high'', u_adminNotes = Some ''done'',
     u_respondent = None, u_userId = None, u_userName = None\<rparr>"

definition no_update :: updates where
  "no_update = \<lparr>u_id = None, u_title = None, u_description = None, u_category = None,
     u_location = None, u_photo = None, u_contactInfo = None, u_status = None,
     u_dateSubmitted = None, u_priority = None, u_adminNotes = None, u_respondent = None,
     u_userId = None, u_userName = None\<rparr>"

section \<open>Facts about the store\<close>

lemma user_id_new_row [simp]: "user_id (new_row i now c) = user_id c"
  by (simp add: new_row_def dbComplaint.extend_def)

lemma own_row_new_row [simp]: "own_row s (new_row i now c) = own_row s c"
  by (simp add: own_row_def split: option.splits)

lemma new_row_simps [simp]:
  "title (new_row i now c) = title c"
  "description (new_row i now c) = description c"
  "category (new_row i now c) = category c"
  "location (new_row i now c) = location c"
  "photo (new_row i now c) = photo c"
  "contact_info (new_row i now c) = contact_info c"
  "status (new_row i now c) = status c"
  "priority (new_row i now c) = priority c"
  "admin_notes (new_row i now c) = admin_notes c"
  "respondent (new_row i now c) = respondent c"
  "user_name (new_row i now c) = user_name c"
  "date_submitted (new_row i now c) = date_submitted c"
  "row_id (new_row i now c) = i"
  "created_at (new_row i now c) = now"
  "updated_at (new_row i now c) = now"
  by (simp_all add: new_row_def dbComplaint.extend_def row.fields_def)

text \<open>A caller may always insert, and read back, a row that carries the caller's own id.\<close>

lemma insert_returning_own:
  "user_id c = Some (uid u) \<Longrightarrow>
   insert_returning (Some u) now c d =
     Inr (new_row (next_id d) now c,
          d\<lparr>rows := rows d @ [new_row (next_id d) now c], next_id := Suc (next_id d)\<rparr>)"
  by (simp add: insert_returning_def Let_def policy_insert_check_def policy_select_def own_row_def)

text \<open>
  A row without owner passes the insert check for everybody, but only an admin can read it
  back, so only an admin's insert goes through.
\<close>

lemma insert_returning_guest:
  "user_id c = None \<Longrightarrow>
   insert_returning s now c d =
     (if jwt_admin s
      then Inr (new_row (next_id d) now c,
          d\<lparr>rows := rows d @ [new_row (next_id d) now c], next_id := Suc (next_id d)\<rparr>)
      else Inl RLS_42501)"
  by (simp add: insert_returning_def Let_def policy_insert_check_def policy_select_def own_row_def
      split: option.splits)

text \<open>Nobody but an admin sees a guest row, so the query for the last one finds none.\<close>

lemma lastGuest_not_admin: "\<not> jwt_admin s \<Longrightarrow> lastGuest s d = None"
proof -
  assume na: "\<not> jwt_admin s"
  have "filter (\<lambda>r. policy_select s r \<and> user_id r = None \<and> like_Anonymous (user_name r)) (rows d) = []"
    using na by (auto simp: filter_empty_conv policy_select_def own_row_def split: option.splits)
  then show ?thesis by (simp add: lastGuest_def select_rows_def)
qed

lemma anonymousName_1: "anonymousName (Suc 0) = ''Anonymous001''"
  by code_simp

lemma guest_submitter_not_admin:
  "\<not> jwt_admin s \<Longrightarrow> addComplaint_submitter s True d = Inr (''Anonymous001'', None)"
  by (simp add: addComplaint_submitter_def lastGuest_not_admin nextNumber_def anonymousName_1)

lemma addComplaint_session:
  "addComplaint (Some u) False clientNow now cd (d, cs) =
    (let r = new_row (next_id d) now
               (to_dbComplaint cd (Some (uid u)) (session_userName u) clientNow) in
     (None, d\<lparr>rows := rows d @ [r], next_id := Suc (next_id d)\<rparr>,
      toComplaint r # cs))"
  by (simp add: addComplaint_def addComplaint_submitter_def addComplaint_insert_def
      insert_returning_own to_dbComplaint_def Let_def)

lemma addComplaint_guest:
  "addComplaint s True clientNow now cd (d, cs) =
    (let r = new_row (next_id d) now
               (to_dbComplaint cd None (anonymousName (nextNumber (lastGuest s d))) clientNow) in
     if jwt_admin s
     then (None, d\<lparr>rows := rows d @ [r], next_id := Suc (next_id d)\<rparr>,
           toComplaint r # cs)
     else (Some ''Failed to submit complaint'', d, cs))"
  by (simp add: addComplaint_def addComplaint_submitter_def addComplaint_insert_def
      insert_returning_guest to_dbComplaint_def Let_def)

lemma update_target_iff:
  "update_target s i r = (row_id r = i \<and> (own_row s r \<or> jwt_admin s))"
  by (auto simp: update_target_def policy_select_def policy_update_using_def)

lemma user_id_set_columns [simp]: "user_id (set_columns u r) = user_id r"
  by (simp add: set_columns_def)

lemma row_id_set_columns [simp]: "row_id (set_columns u r) = row_id r"
  by (simp add: set_columns_def)

lemma update_returning_one:
  assumes "\<not> no_columns u" and "filter (update_target s i) (rows d) = [r]"
  shows "update_returning s now i u d =
     Inr (update_updated_at_column now (set_columns u r),
          d\<lparr>rows := map (\<lambda>x. if update_target s i x
                              then update_updated_at_column now (set_columns u r) else x) (rows d)\<rparr>)"
proof -
  have "r \<in> set (filter (update_target s i) (rows d))" using assms(2) by simp
  then have "update_target s i r" by simp
  then have ok: "own_row s r \<or> jwt_admin s" by (simp add: update_target_iff)
  have "own_row s (update_updated_at_column now (set_columns u r)) = own_row s r"
    by (simp add: own_row_def update_updated_at_column_def split: option.splits)
  with ok have "policy_update_check s (update_updated_at_column now (set_columns u r))
     \<and> policy_select s (update_updated_at_column now (set_columns u r))"
    by (simp add: policy_update_check_def policy_select_def)
  then show ?thesis using assms by (simp add: update_returning_def Let_def)
qed

lemma update_returning_none:
  "filter (update_target s i) (rows d) = [] \<Longrightarrow> update_returning s now i u d = Inl PGRST116"
  by (simp add: update_returning_def)

lemma update_target_unique:
  assumes "filter (\<lambda>x. row_id x = i) (rows d) = [r]" and "own_row s r \<or> jwt_admin s"
  shows "filter (update_target s i) (rows d) = [r]"
proof -
  have "update_target s i = (\<lambda>x. row_id x = i \<and> (own_row s x \<or> jwt_admin s))"
    by (rule ext) (rule update_target_iff)
  then have "filter (update_target s i) (rows d)
      = filter (\<lambda>x. own_row s x \<or> jwt_admin s) (filter (\<lambda>x. row_id x = i) (rows d))"
    by simp
  with assms show ?thesis by simp
qed

lemma update_target_map:
  assumes "filter (\<lambda>x. row_id x = i) (rows d) = [r]" and "own_row s r \<or> jwt_admin s"
  shows "map (\<lambda>x. if update_target s i x then r' else x) (rows d)
       = map (\<lambda>x. if row_id x = i then r' else x) (rows d)"
proof (rule map_cong)
  fix x assume x: "x \<in> set (rows d)"
  show "(if update_target s i x then r' else x) = (if row_id x = i then r' else x)"
  proof (cases "row_id x = i")
    case True
    with x have "x \<in> set (filter (\<lambda>x. row_id x = i) (rows d))" by simp
    with assms(1) have "x = r" by simp
    with True assms(2) show ?thesis by (simp add: update_target_iff)
  next
    case False
    then show ?thesis by (simp add: update_target_iff)
  qed
qed simp

text \<open>
  What an update does when the id names exactly one row and the caller owns that row or
  is an admin.
\<close>

lemma updateComplaint_permitted:
  assumes "filter (\<lambda>x. row_id x = i) (rows d) = [r]"
    and "own_row (Some user) r \<or> jwt_admin (Some user)"
    and "\<not> no_columns (to_dbUpdates u)"
  shows "updateComplaint (Some user) now i u (d, cs) =
     (None,
      d\<lparr>rows := map (\<lambda>x. if row_id x = i
                          then update_updated_at_column now (set_columns (to_dbUpdates u) r)
                          else x) (rows d)\<rparr>,
      map (\<lambda>c. if c_id c = i
                then merge_updates u (update_updated_at_column now (set_columns (to_dbUpdates u) r)) c
                else c) cs)"
  using update_returning_one [OF assms(3) update_target_unique [OF assms(1,2)], of now]
    update_target_map [OF assms(1,2)]
  by (simp add: updateComplaint_def)

lemma updateComplaint_refused:
  assumes "filter (update_target (Some user) i) (rows d) = []"
  shows "updateComplaint (Some user) now i u (d, cs) = (Some ''Failed to update complaint'', d, cs)"
  by (simp add: updateComplaint_def update_returning_none [OF assms])

lemma query_complaints_admin:
  "role u = Some ''admin'' \<Longrightarrow> query_complaints u d = Inr (order_date_submitted_desc (rows d))"
  by (simp add: query_complaints_def select_rows_def policy_select_def jwt_admin_def)

lemma query_complaints_resident:
  "role u \<noteq> Some ''admin'' \<Longrightarrow>
   query_complaints u d =
     Inr (order_date_submitted_desc (filter (\<lambda>r. user_id r = Some (uid u)) (rows d)))"
proof -
  assume "role u \<noteq> Some ''admin''"
  then have "filter (\<lambda>r. policy_select (Some u) r \<and> (role u = Some ''admin'' \<or> user_id r = Some (uid u))) (rows d)
      = filter (\<lambda>r. user_id r = Some (uid u)) (rows d)"
    by (intro filter_cong) (auto simp: policy_select_def own_row_def jwt_admin_def)
  then show ?thesis by (simp add: query_complaints_def select_rows_def)
qed

lemma set_order_date_submitted_desc [simp]: "set (order_date_submitted_desc rs) = set rs"
  by (simp add: order_date_submitted_desc_def)

text \<open>
  Three facts for an update that is repeated: setting the same columns again changes
  nothing, the replaced row is again the only one with its id, and a function applied to
  the row with an id may as well be applied to whichever row has that id.
\<close>

lemma set_columns_again:
  "set_columns u (update_updated_at_column t (set_columns u r))
     = update_updated_at_column t (set_columns u r)"
  by (rule row.equality)
     (simp_all add: set_columns_def update_updated_at_column_def split: option.split)

lemma filter_row_id_replaced:
  assumes "filter (\<lambda>x. row_id x = i) xs = [r]" and "row_id r' = i"
  shows "filter (\<lambda>x. row_id x = i) (map (\<lambda>x. if row_id x = i then r' else x) xs) = [r']"
proof -
  have "(\<lambda>x. row_id x = i) \<circ> (\<lambda>x. if row_id x = i then r' else x) = (\<lambda>x. row_id x = i)"
    using assms(2) by (auto simp: fun_eq_iff)
  then have "filter (\<lambda>x. row_id x = i) (map (\<lambda>x. if row_id x = i then r' else x) xs)
      = map (\<lambda>x. if row_id x = i then r' else x) (filter (\<lambda>x. row_id x = i) xs)"
    by (simp add: filter_map)
  moreover have "row_id r = i"
  proof -
    have "r \<in> set (filter (\<lambda>x. row_id x = i) xs)" using assms(1) by simp
    then show ?thesis by simp
  qed
  ultimately show ?thesis using assms(1) by simp
qed

lemma the_row_with_id:
  assumes "filter (\<lambda>x. row_id x = i) xs = [r]"
  shows "map (\<lambda>x. if row_id x = i then f r else x) xs = map (\<lambda>x. if row_id x = i then f x else x) xs"
proof (rule map_cong)
  fix x assume "x \<in> set xs"
  show "(if row_id x = i then f r else x) = (if row_id x = i then f x else x)"
  proof (cases "row_id x = i")
    case True
    with \<open>x \<in> set xs\<close> have "x \<in> set (filter (\<lambda>x. row_id x = i) xs)" by simp
    with assms have "x = r" by simp
    then show ?thesis by simp
  next
    case False
    then show ?thesis by simp
  qed
qed simp

text \<open>
  What a call can do to the table: \<open>addComplaint\<close> leaves it alone or appends one row;
  \<open>updateComplaint\<close> leaves it alone or replaces the one row the statement can see.
\<close>

lemma addComplaint_rows:
  "rows (store_of (addComplaint s g clientNow now cd (d, cs))) = rows d \<or>
   (\<exists>r. rows (store_of (addComplaint s g clientNow now cd (d, cs))) = rows d @ [r] \<and>
        date_submitted r = clientNow \<and> created_at r = now \<and> updated_at r = now)"
  by (auto simp: addComplaint_def addComplaint_insert_def insert_returning_def Let_def store_of_def
      to_dbComplaint_def split: sum.splits if_splits)

lemma update_returning_rows:
  assumes "update_returning s now i u d = Inr (data, d')"
  shows "\<exists>r. filter (update_target s i) (rows d) = [r] \<and>
     data = update_updated_at_column now (set_columns u r) \<and>
     rows d' = map (\<lambda>x. if update_target s i x then data else x) (rows d)"
  using assms
  by (auto simp: update_returning_def Let_def split: if_splits list.splits)

lemma updateComplaint_rows:
  "(fst (updateComplaint s now i u (d, cs)) \<noteq> None \<and> store_of (updateComplaint s now i u (d, cs)) = d) \<or>
   (fst (updateComplaint s now i u (d, cs)) = None \<and>
    (\<exists>r. filter (update_target s i) (rows d) = [r] \<and>
       rows (store_of (updateComplaint s now i u (d, cs)))
         = map (\<lambda>x. if update_target s i x
                     then update_updated_at_column now (set_columns (to_dbUpdates u) r) else x) (rows d)))"
proof (cases s)
  case None
  then show ?thesis by (simp add: updateComplaint_def store_of_def)
next
  case (Some user)
  show ?thesis
  proof (cases "update_returning s now i (to_dbUpdates u) d")
    case (Inl e)
    with Some show ?thesis by (simp add: updateComplaint_def store_of_def)
  next
    case (Inr p)
    obtain data d' where p: "p = (data, d')" by (cases p)
    from update_returning_rows [OF Inr [unfolded p]] Some Inr p
    show ?thesis by (auto simp: updateComplaint_def store_of_def)
  qed
qed

lemma sole_target:
  assumes "filter (update_target s i) xs = [r]" and "x \<in> set xs" and "update_target s i x"
  shows "x = r"
proof -
  from assms(2,3) have "x \<in> set (filter (update_target s i) xs)" by simp
  with assms(1) show ?thesis by simp
qed

lemma date_submitted_updated [simp]:
  "date_submitted (update_updated_at_column now (set_columns u r)) = date_submitted r"
  "created_at (update_updated_at_column now (set_columns u r)) = created_at r"
  "updated_at (update_updated_at_column now (set_columns u r)) = now"
  "row_id (update_updated_at_column now (set_columns u r)) = row_id r"
  by (simp_all add: update_updated_at_column_def set_columns_def)

subsection \<open>The handle as a function of the counter\<close>

text \<open>
  The number survives the trip through the handle: it is read back from the padded
  digits, so the handle of a row determines the next number, different numbers give
  different handles, and the width grows past 999.
\<close>

lemma below_ten:
  "k < (10::nat) \<Longrightarrow>
   k = 0 \<or> k = 1 \<or> k = 2 \<or> k = 3 \<or> k = 4 \<or> k = 5 \<or> k = 6 \<or> k = 7 \<or> k = 8 \<or> k = 9"
  by arith

lemma digit_val_digit_char: "k < 10 \<Longrightarrow> digit_val (digit_char k) = k"
  by (drule below_ten) (elim disjE; simp add: digit_val_def digit_char_def)

lemma is_digit_digit_char: "is_digit (digit_char k)"
proof -
  have "k mod 10 < 10" by simp
  from below_ten [OF this] show ?thesis
    by (elim disjE; simp add: is_digit_def digit_char_def)
qed

lemma parseInt_snoc: "parseInt (ds @ [c]) = 10 * parseInt ds + digit_val c"
  by (simp add: parseInt_def)

lemma parseInt_toString: "parseInt (toString n) = n"
proof (induction n rule: toString.induct)
  case (1 n)
  show ?case
  proof (cases "n < 10")
    case True
    then show ?thesis by (simp add: toString.simps [of n] parseInt_def digit_val_digit_char)
  next
    case False
    with 1 have "parseInt (toString (n div 10)) = n div 10" by simp
    with False show ?thesis
      by (simp add: toString.simps [of n] parseInt_snoc digit_val_digit_char)
  qed
qed

lemma toString_digits: "toString n \<noteq> [] \<and> (\<forall>c \<in> set (toString n). is_digit c)"
proof (induction n rule: toString.induct)
  case (1 n)
  show ?case
  proof (cases "n < 10")
    case True
    then show ?thesis by (simp add: toString.simps [of n] is_digit_digit_char)
  next
    case False
    with 1 show ?thesis by (simp add: toString.simps [of n] is_digit_digit_char)
  qed
qed

lemma parseInt_zeros: "parseInt (replicate k (CHR ''0'') @ ds) = parseInt ds"
proof -
  have z: "digit_val (CHR ''0'') = 0" by (simp add: digit_val_def)
  have "foldl (\<lambda>n c. 10 * n + digit_val c) 0 (replicate k (CHR ''0'')) = 0"
    by (induction k) (simp_all add: z)
  then show ?thesis by (simp add: parseInt_def)
qed

lemma parseInt_padStart: "parseInt (padStart 3 (CHR ''0'') (toString n)) = n"
  by (simp add: padStart_def parseInt_zeros parseInt_toString)

lemma padStart_digits:
  "takeWhile is_digit (padStart 3 (CHR ''0'') (toString n)) = padStart 3 (CHR ''0'') (toString n)"
proof -
  have "is_digit (CHR ''0'')" by (simp add: is_digit_def)
  then have "\<forall>c \<in> set (padStart 3 (CHR ''0'') (toString n)). is_digit c"
    using toString_digits [of n] by (auto simp: padStart_def)
  then show ?thesis by simp
qed

lemma padStart_not_empty: "padStart 3 (CHR ''0'') (toString n) \<noteq> []"
  using toString_digits [of n] by (simp add: padStart_def)

lemma match_anonymousName:
  "match_Anonymous_digits (anonymousName n) = Some (padStart 3 (CHR ''0'') (toString n))"
proof -
  have "match_here (''Anonymous'' @ padStart 3 (CHR ''0'') (toString n))
      = Some (padStart 3 (CHR ''0'') (toString n))"
    by (simp add: match_here_def padStart_digits padStart_not_empty)
  then show ?thesis by (simp add: anonymousName_def)
qed

lemma nextNumber_anonymousName:
  "n < 2 ^ 53 \<Longrightarrow> user_name r = Some (anonymousName n) \<Longrightarrow> nextNumber (Some r) = Suc n"
  by (simp add: nextNumber_def match_anonymousName parseInt_padStart) (simp add: anonymousName_def)

lemma anonymousName_inj:
  "m < 2 ^ 53 \<Longrightarrow> n < 2 ^ 53 \<Longrightarrow> anonymousName m = anonymousName n \<Longrightarrow> m = n"
proof -
  assume "anonymousName m = anonymousName n"
  then have "padStart 3 (CHR ''0'') (toString m) = padStart 3 (CHR ''0'') (toString n)"
    by (simp add: anonymousName_def)
  then have "parseInt (padStart 3 (CHR ''0'') (toString m)) = parseInt (padStart 3 (CHR ''0'') (toString n))"
    by simp
  then show ?thesis by (simp add: parseInt_padStart)
qed

lemma anonymousName_width:
  "anonymousName 7 = ''Anonymous007'' \<and> anonymousName 999 = ''Anonymous999'' \<and>
   anonymousName 1000 = ''Anonymous1000''"
  by code_simp

text \<open>
  So a caller who can read the last guest row, which the policies grant to an admin,
  receives the successor of its number.
\<close>

lemma guest_submitter_successor:
  "n < 2 ^ 53 \<Longrightarrow> lastGuest s d = Some r \<Longrightarrow> user_name r = Some (anonymousName n) \<Longrightarrow>
   addComplaint_submitter s True d = Inr (anonymousName (Suc n), None)"
  by (simp add: addComplaint_submitter_def nextNumber_anonymousName)

lemma admin_guest_handles_count_up:
  "map user_name (rows (store_of (addComplaint (Some admin1) True 14 15 noise_report
      (store_of (addComplaint (Some admin1) True 12 13 noise_report
         (store_of (addComplaint (Some admin1) True 10 11 noise_report (empty_db, [])), [])), []))))
   = [Some ''Anonymous001'', Some ''Anonymous002'', Some ''Anonymous003'']"
  by code_simp

section \<open>The claims\<close>

text \<open>
  C1. Concurrent guest submissions receive pairwise distinct handles. The code has no
  counter: a submission reads the newest guest row, adds one, and inserts in a second
  request. When two submissions read before either inserts, both take the same handle and
  both rows are stored. Here the two callers are admins with the guest flag set, whose
  inserts the store accepts: on the empty store both read \<open>Anonymous001\<close>, both inserts
  succeed, and the table ends with two rows named \<open>Anonymous001\<close>.
\<close>

theorem concurrent_guests_share_handle:
  "addComplaint_submitter (Some admin1) True empty_db = Inr (''Anonymous001'', None) \<and>
   addComplaint_submitter (Some admin2) True empty_db = Inr (''Anonymous001'', None) \<and>
   fst first_insert = None \<and>
   fst second_insert = None \<and>
   map user_name (rows (store_of second_insert)) = [Some ''Anonymous001'', Some ''Anonymous001'']"
  by code_simp

text \<open>
  C2. Two guest submissions in a row receive \<open>Anonymous001\<close> and then \<open>Anonymous002\<close>.
  The arithmetic of the handle is as the claim has it (see the facts on the handle
  above), but for a guest without a session the read of the newest guest row returns
  nothing, whatever the table holds, because no \<open>SELECT\<close> policy shows a guest row to
  anybody but an admin (\<open>guest_submitter_not_admin\<close>). The first submission on the empty
  store computes \<open>Anonymous001\<close> and is refused by the store; the second computes
  \<open>Anonymous001\<close> again.
\<close>

theorem guest_handles_repeat:
  "addComplaint_submitter None True empty_db = Inr (''Anonymous001'', None) \<and>
   addComplaint None True 10 11 noise_report (empty_db, [])
     = (Some ''Failed to submit complaint'', empty_db, []) \<and>
   addComplaint_submitter None True
       (store_of (addComplaint None True 10 11 noise_report (empty_db, [])))
     = Inr (''Anonymous001'', None)"
  by code_simp

text \<open>
  C3. Every read of the list is scoped to the caller. Without a session
  \<open>fetchComplaints\<close> sets the list to empty, whatever the store holds and without an
  error. An admin receives every row. Any other session receives exactly the rows whose
  \<open>user_id\<close> is the caller's id, so never a row of somebody else.
\<close>

theorem fetchComplaints_scoped:
  "fetchComplaints None d cs = [] \<and>
   (role u = Some ''admin'' \<longrightarrow>
      fetchComplaints (Some u) d cs = map toComplaint (order_date_submitted_desc (rows d))) \<and>
   (role u \<noteq> Some ''admin'' \<longrightarrow>
      fetchComplaints (Some u) d cs =
        map toComplaint
          (order_date_submitted_desc (filter (\<lambda>r. user_id r = Some (uid u)) (rows d))) \<and>
      (\<forall>c \<in> set (fetchComplaints (Some u) d cs). c_userId c = Some (uid u)))"
proof (intro conjI impI)
  show "fetchComplaints None d cs = []" by (simp add: fetchComplaints_def)
next
  assume "role u = Some ''admin''"
  then show "fetchComplaints (Some u) d cs = map toComplaint (order_date_submitted_desc (rows d))"
    by (simp add: fetchComplaints_def query_complaints_admin)
next
  assume r: "role u \<noteq> Some ''admin''"
  then show eq: "fetchComplaints (Some u) d cs =
        map toComplaint
          (order_date_submitted_desc (filter (\<lambda>r. user_id r = Some (uid u)) (rows d)))"
    by (simp add: fetchComplaints_def query_complaints_resident)
  show "\<forall>c \<in> set (fetchComplaints (Some u) d cs). c_userId c = Some (uid u)"
    unfolding eq by (auto simp: toComplaint_def)
qed

text \<open>
  On the sample store the admin reads all three rows, newest first, and the resident
  reads her own row only.
\<close>

theorem fetchComplaints_scoped_witness:
  "fetchComplaints None sample_db [] = [] \<and>
   map c_id (fetchComplaints (Some admin1) sample_db []) = [2, 1, 0] \<and>
   map c_userId (fetchComplaints (Some admin1) sample_db []) = [None, Some 8, Some 7] \<and>
   map c_id (fetchComplaints (Some resident7) sample_db []) = [0] \<and>
   map c_userId (fetchComplaints (Some resident7) sample_db []) = [Some 7]"
proof -
  have a: "role admin1 = Some ''admin''" by (simp add: admin1_def)
  have r: "role resident7 \<noteq> Some ''admin''" by (simp add: resident7_def)
  have "fetchComplaints (Some admin1) sample_db []
      = map toComplaint (order_date_submitted_desc (rows sample_db))"
    using fetchComplaints_scoped [of sample_db "[]" admin1] a by simp
  moreover have "map row_id (order_date_submitted_desc (rows sample_db)) = [2, 1, 0]"
    by code_simp
  moreover have "map user_id (order_date_submitted_desc (rows sample_db)) = [None, Some 8, Some 7]"
    by code_simp
  moreover have "fetchComplaints (Some resident7) sample_db [] =
      map toComplaint (order_date_submitted_desc
        (filter (\<lambda>r. user_id r = Some (uid resident7)) (rows sample_db)))"
    using fetchComplaints_scoped [of sample_db "[]" resident7] r by simp
  moreover have "map row_id (order_date_submitted_desc
        (filter (\<lambda>r. user_id r = Some (uid resident7)) (rows sample_db))) = [0]"
    by code_simp
  moreover have "map user_id (order_date_submitted_desc
        (filter (\<lambda>r. user_id r = Some (uid resident7)) (rows sample_db))) = [Some 7]"
    by code_simp
  moreover have "fetchComplaints None sample_db [] = []"
    using fetchComplaints_scoped [of sample_db "[]" admin1] by simp
  ultimately show ?thesis by (simp add: toComplaint_def comp_def)
qed

text \<open>
  C4. Only an admin may change status, priority or admin notes; every other caller is
  refused and the record stays as it was. \<open>updateComplaint\<close> checks only that there is
  a session, and the policy "Users can update their own complaints (limited fields)"
  limits no field. So the resident who filed a complaint, who has no admin role, sets its
  status to \<open>resolved\<close> and its priority to \<open>high\<close> and writes its admin notes, and the
  call returns no error.
\<close>

theorem resident_writes_admin_fields:
  "role resident7 = None \<and>
   map user_id (rows one_complaint_db) = [Some 7] \<and>
   map status (rows one_complaint_db) = [''pending''] \<and>
   map priority (rows one_complaint_db) = [''medium''] \<and>
   map admin_notes (rows one_complaint_db) = [None] \<and>
   fst (updateComplaint (Some resident7) 20 0 triage_update (one_complaint_db, [])) = None \<and>
   map status (rows (store_of
     (updateComplaint (Some resident7) 20 0 triage_update (one_complaint_db, [])))) = [''resolved''] \<and>
   map priority (rows (store_of
     (updateComplaint (Some resident7) 20 0 triage_update (one_complaint_db, [])))) = [''high''] \<and>
   map admin_notes (rows (store_of
     (updateComplaint (Some resident7) 20 0 triage_update (one_complaint_db, [])))) = [Some ''done'']"
  by code_simp

text \<open>
  Whom the update lets through, in general: nobody without a session; of the sessions,
  the admin and the owner of the row, and nobody else.
\<close>

lemma updateComplaint_gate:
  "updateComplaint None now i u (d, cs)
     = (Some ''You must be logged in to update a complaint'', d, cs) \<and>
   (role user \<noteq> Some ''admin'' \<and>
    (\<forall>r \<in> set (rows d). row_id r = i \<longrightarrow> user_id r \<noteq> Some (uid user)) \<longrightarrow>
      updateComplaint (Some user) now i u (d, cs) = (Some ''Failed to update complaint'', d, cs)) \<and>
   (filter (\<lambda>x. row_id x = i) (rows d) = [r] \<and>
    (role user = Some ''admin'' \<or> user_id r = Some (uid user)) \<and>
    \<not> no_columns (to_dbUpdates u) \<longrightarrow>
      fst (updateComplaint (Some user) now i u (d, cs)) = None \<and>
      rows (store_of (updateComplaint (Some user) now i u (d, cs))) =
        map (\<lambda>x. if row_id x = i
                  then update_updated_at_column now (set_columns (to_dbUpdates u) r)
                  else x) (rows d))"
proof (intro conjI impI)
  show "updateComplaint None now i u (d, cs)
      = (Some ''You must be logged in to update a complaint'', d, cs)"
    by (simp add: updateComplaint_def)
next
  assume "role user \<noteq> Some ''admin'' \<and>
    (\<forall>r \<in> set (rows d). row_id r = i \<longrightarrow> user_id r \<noteq> Some (uid user))"
  then have "filter (update_target (Some user) i) (rows d) = []"
    by (auto simp: filter_empty_conv update_target_iff own_row_def jwt_admin_def)
  then show "updateComplaint (Some user) now i u (d, cs)
      = (Some ''Failed to update complaint'', d, cs)"
    by (rule updateComplaint_refused)
next
  assume a: "filter (\<lambda>x. row_id x = i) (rows d) = [r] \<and>
    (role user = Some ''admin'' \<or> user_id r = Some (uid user)) \<and>
    \<not> no_columns (to_dbUpdates u)"
  then have ok: "own_row (Some user) r \<or> jwt_admin (Some user)"
    by (auto simp: own_row_def jwt_admin_def)
  from a have f: "filter (\<lambda>x. row_id x = i) (rows d) = [r]"
    and n: "\<not> no_columns (to_dbUpdates u)" by simp_all
  note eq = updateComplaint_permitted [OF f ok n, of now cs]
  show "fst (updateComplaint (Some user) now i u (d, cs)) = None" by (simp add: eq)
  show "rows (store_of (updateComplaint (Some user) now i u (d, cs))) =
        map (\<lambda>x. if row_id x = i
                  then update_updated_at_column now (set_columns (to_dbUpdates u) r)
                  else x) (rows d)"
    by (simp add: eq store_of_def)
qed

text \<open>
  C6 as the claim has it: an admin's update of an id that names no request fails with a
  NotFound error. It fails, but the code has no such error: the store answers with the
  absence of a row and \<open>updateComplaint\<close> with its one message. On the store that holds
  row 0 only, the admin's update of id 5 returns what the admin's update of row 0 with no
  column returns, and what a stranger's update of row 0 returns.
\<close>

theorem unknown_id_error_is_generic:
  "map row_id (rows one_complaint_db) = [0] \<and>
   updateComplaint (Some admin1) 20 5 (status_only ''resolved'') (one_complaint_db, [])
     = (Some ''Failed to update complaint'', one_complaint_db, []) \<and>
   updateComplaint (Some admin1) 20 0 no_update (one_complaint_db, [])
     = (Some ''Failed to update complaint'', one_complaint_db, []) \<and>
   updateComplaint (Some resident8) 20 0 (status_only ''resolved'') (one_complaint_db, [])
     = (Some ''Failed to update complaint'', one_complaint_db, []) \<and>
   update_returning (Some admin1) 20 5 (to_dbUpdates (status_only ''resolved'')) one_complaint_db
     = update_returning (Some resident8) 20 0 (to_dbUpdates (status_only ''resolved''))
         one_complaint_db"
  by code_simp

text \<open>
  C6, amended. An update whose id names no stored row fails: the store returns no row,
  which \<open>.single()\<close> reports as an error, and \<open>updateComplaint\<close> returns the message
  \<open>Failed to update complaint\<close> and leaves store and local state as they were. This
  holds for an admin as for any other session. The message is not a NotFound of its own:
  every call with a session either succeeds or returns this same message and changes
  nothing.
\<close>

theorem updateComplaint_unknown_id:
  assumes "\<forall>r \<in> set (rows d). row_id r \<noteq> i"
  shows "update_returning (Some user) now i (to_dbUpdates u) d = Inl PGRST116 \<and>
         updateComplaint (Some user) now i u (d, cs)
           = (Some ''Failed to update complaint'', d, cs) \<and>
         (fst (updateComplaint (Some user') now' j u' st) = None \<or>
          updateComplaint (Some user') now' j u' st = (Some ''Failed to update complaint'', st))"
proof -
  have "filter (update_target (Some user) i) (rows d) = []"
    using assms by (auto simp: filter_empty_conv update_target_iff)
  then have "update_returning (Some user) now i (to_dbUpdates u) d = Inl PGRST116"
    and "updateComplaint (Some user) now i u (d, cs) = (Some ''Failed to update complaint'', d, cs)"
    by (simp_all add: update_returning_none updateComplaint_refused)
  moreover have "fst (updateComplaint (Some user') now' j u' st) = None \<or>
      updateComplaint (Some user') now' j u' st = (Some ''Failed to update complaint'', st)"
    by (simp add: updateComplaint_def split: sum.split prod.split)
  ultimately show ?thesis by simp
qed

text \<open>
  The admin's update of id 5 on the store that holds row 0, and a stranger's failing
  update of row 0.
\<close>

theorem updateComplaint_unknown_id_witness:
  "update_returning (Some admin1) 20 5 (to_dbUpdates (status_only ''resolved'')) one_complaint_db
     = Inl PGRST116 \<and>
   updateComplaint (Some admin1) 20 5 (status_only ''resolved'') (one_complaint_db, [])
     = (Some ''Failed to update complaint'', one_complaint_db, []) \<and>
   updateComplaint (Some resident8) 20 0 (status_only ''resolved'') (one_complaint_db, [])
     = (Some ''Failed to update complaint'', one_complaint_db, [])"
proof -
  have h: "\<forall>r \<in> set (rows one_complaint_db). row_id r \<noteq> 5" by code_simp
  have f: "fst (updateComplaint (Some resident8) 20 0 (status_only ''resolved'') (one_complaint_db, []))
      \<noteq> None" by code_simp
  show ?thesis
    using updateComplaint_unknown_id [OF h, of admin1 20 "status_only ''resolved''" "[]"
        resident8 20 0 "status_only ''resolved''" "(one_complaint_db, [])"] f
    by simp
qed

text \<open>
  C7. An admin applies the same update twice to an existing request: both calls succeed;
  the second leaves every row and every column as the first left it, except that the
  row's \<open>updated_at\<close> is the time of the second call; and each of the two calls commits
  one write, for which the notifier of the spec publishes exactly once. The update may
  set status, priority or any other column.
\<close>

theorem updateComplaint_same_value_twice:
  assumes admin: "role user = Some ''admin''"
    and target: "filter (\<lambda>x. row_id x = i) (rows d) = [r]"
    and cols: "\<not> no_columns (to_dbUpdates u)"
  shows "fst (updateComplaint (Some user) t1 i u (d, cs)) = None \<and>
    fst (updateComplaint (Some user) t2 i u (snd (updateComplaint (Some user) t1 i u (d, cs)))) = None \<and>
    rows (store_of (updateComplaint (Some user) t2 i u (snd (updateComplaint (Some user) t1 i u (d, cs)))))
      = map (\<lambda>x. if row_id x = i then x\<lparr>updated_at := t2\<rparr> else x)
          (rows (store_of (updateComplaint (Some user) t1 i u (d, cs)))) \<and>
    next_id (store_of (updateComplaint (Some user) t2 i u (snd (updateComplaint (Some user) t1 i u (d, cs)))))
      = next_id (store_of (updateComplaint (Some user) t1 i u (d, cs))) \<and>
    updateComplaint_publishes (Some user) t1 i u d = 1 \<and>
    updateComplaint_publishes (Some user) t2 i u
      (store_of (updateComplaint (Some user) t1 i u (d, cs))) = 1"
proof -
  define r1 where "r1 = update_updated_at_column t1 (set_columns (to_dbUpdates u) r)"
  define d1 where "d1 = d\<lparr>rows := map (\<lambda>x. if row_id x = i then r1 else x) (rows d)\<rparr>"
  define cs1 where "cs1 = map (\<lambda>c. if c_id c = i then merge_updates u r1 c else c) cs"
  have ok: "own_row (Some user) x \<or> jwt_admin (Some user)" for x :: row
    using admin by (simp add: jwt_admin_def)
  have first: "updateComplaint (Some user) t1 i u (d, cs) = (None, d1, cs1)"
    unfolding d1_def cs1_def r1_def by (rule updateComplaint_permitted [OF target ok cols])
  have id1: "row_id r1 = i"
  proof -
    have "r \<in> set (filter (\<lambda>x. row_id x = i) (rows d))" using target by simp
    then show ?thesis by (simp add: r1_def update_updated_at_column_def)
  qed
  have target1: "filter (\<lambda>x. row_id x = i) (rows d1) = [r1]"
    unfolding d1_def using filter_row_id_replaced [OF target id1] by simp
  have "set_columns (to_dbUpdates u) r1 = r1"
    unfolding r1_def by (rule set_columns_again)
  then have again: "update_updated_at_column t2 (set_columns (to_dbUpdates u) r1) = r1\<lparr>updated_at := t2\<rparr>"
    by (simp add: update_updated_at_column_def)
  have second: "updateComplaint (Some user) t2 i u (d1, cs1) =
      (None, d1\<lparr>rows := map (\<lambda>x. if row_id x = i then r1\<lparr>updated_at := t2\<rparr> else x) (rows d1)\<rparr>,
       map (\<lambda>c. if c_id c = i then merge_updates u (r1\<lparr>updated_at := t2\<rparr>) c else c) cs1)"
    using updateComplaint_permitted [OF target1 ok cols, of t2 cs1] by (simp add: again)
  have same: "map (\<lambda>x. if row_id x = i then r1\<lparr>updated_at := t2\<rparr> else x) (rows d1)
      = map (\<lambda>x. if row_id x = i then x\<lparr>updated_at := t2\<rparr> else x) (rows d1)"
    by (rule the_row_with_id [OF target1])
  have p1: "updateComplaint_publishes (Some user) t1 i u d = 1"
    using update_returning_one [OF cols update_target_unique [OF target ok], of t1]
    by (simp add: updateComplaint_publishes_def publish_count_def)
  have p2: "updateComplaint_publishes (Some user) t2 i u d1 = 1"
    using update_returning_one [OF cols update_target_unique [OF target1 ok], of t2]
    by (simp add: updateComplaint_publishes_def publish_count_def)
  show ?thesis
    by (simp add: first second same store_of_def p1 p2)
qed

text \<open>
  The admin sets the status of the one stored complaint to \<open>resolved\<close> at time 20 and
  again at time 25.
\<close>

theorem updateComplaint_same_value_twice_witness:
  "fst (updateComplaint (Some admin1) 20 0 (status_only ''resolved'') (one_complaint_db, [])) = None \<and>
   fst (updateComplaint (Some admin1) 25 0 (status_only ''resolved'')
     (snd (updateComplaint (Some admin1) 20 0 (status_only ''resolved'') (one_complaint_db, [])))) = None \<and>
   rows (store_of (updateComplaint (Some admin1) 20 0 (status_only ''resolved'') (one_complaint_db, [])))
     = [ana_row\<lparr>status := ''resolved'', updated_at := 20\<rparr>] \<and>
   rows (store_of (updateComplaint (Some admin1) 25 0 (status_only ''resolved'')
     (snd (updateComplaint (Some admin1) 20 0 (status_only ''resolved'') (one_complaint_db, [])))))
     = [ana_row\<lparr>status := ''resolved'', updated_at := 25\<rparr>] \<and>
   updateComplaint_publishes (Some admin1) 20 0 (status_only ''resolved'') one_complaint_db = 1 \<and>
   updateComplaint_publishes (Some admin1) 25 0 (status_only ''resolved'')
     (store_of (updateComplaint (Some admin1) 20 0 (status_only ''resolved'') (one_complaint_db, [])))
     = 1"
proof -
  have a: "role admin1 = Some ''admin''" by (simp add: admin1_def)
  have t: "filter (\<lambda>x. row_id x = 0) (rows one_complaint_db) = [ana_row]" by code_simp
  have c: "\<not> no_columns (to_dbUpdates (status_only ''resolved''))" by code_simp
  have f: "rows (store_of (updateComplaint (Some admin1) 20 0 (status_only ''resolved'') (one_complaint_db, [])))
     = [ana_row\<lparr>status := ''resolved'', updated_at := 20\<rparr>]" by code_simp
  have i: "row_id ana_row = 0" by code_simp
  show ?thesis
    using updateComplaint_same_value_twice [OF a t c, of 20 "[]" 25] f i by simp
qed

text \<open>
  C5 as the claim has it: a submission with a required field missing, or without
  respondent for a dispute category, fails. \<open>addComplaint\<close> does not look at the fields.
  A dispute with empty title, description, location and contact and with no respondent
  is stored as it is.
\<close>

theorem blank_dispute_accepted:
  "requiresRespondent (c_category blank_dispute) \<and>
   c_respondent blank_dispute = None \<and>
   c_title blank_dispute = [] \<and>
   fst (addComplaint (Some resident7) False 10 11 blank_dispute (empty_db, [])) = None \<and>
   map title (rows (store_of
     (addComplaint (Some resident7) False 10 11 blank_dispute (empty_db, [])))) = [[]] \<and>
   map category (rows (store_of
     (addComplaint (Some resident7) False 10 11 blank_dispute (empty_db, [])))) = [''civil-disputes''] \<and>
   map respondent (rows (store_of
     (addComplaint (Some resident7) False 10 11 blank_dispute (empty_db, [])))) = [None]"
  by code_simp

text \<open>
  C5, amended. For a caller with a session and without the guest flag every submission
  succeeds, whatever its fields hold. The table grows by one row, whose title,
  description, category, location, photo, contact, status, priority, admin notes and
  respondent are the submitted ones; its owner and display name are those of the
  session, not the \<open>userId\<close> and \<open>userName\<close> of the submission. The copy put in front of
  the local state is that row, so the respondent comes back as it was sent.
\<close>

theorem addComplaint_checks_no_field:
  "fst (addComplaint (Some user) False clientNow now cd (d, cs)) = None \<and>
   (\<exists>r. rows (store_of (addComplaint (Some user) False clientNow now cd (d, cs))) = rows d @ [r] \<and>
        snd (snd (addComplaint (Some user) False clientNow now cd (d, cs))) = toComplaint r # cs \<and>
        title r = c_title cd \<and> description r = c_description cd \<and> category r = c_category cd \<and>
        location r = c_location cd \<and> photo r = c_photo cd \<and> contact_info r = c_contactInfo cd \<and>
        status r = c_status cd \<and> priority r = c_priority cd \<and>
        admin_notes r = c_adminNotes cd \<and> respondent r = c_respondent cd \<and>
        user_id r = Some (uid user) \<and> user_name r = Some (session_userName user) \<and>
        c_respondent (toComplaint r) = c_respondent cd)"
  by (simp add: addComplaint_session Let_def store_of_def to_dbComplaint_def toComplaint_def)

text \<open>
  The form filled in for a dispute against Juan, submitted by Ana: the respondent is
  stored and comes back, and the row is Ana's.
\<close>

theorem addComplaint_checks_no_field_witness:
  "c_respondent (handleSubmit filled_form) = Some ''Juan'' \<and>
   fst (addComplaint (Some resident7) False 10 11 (handleSubmit filled_form) (empty_db, [])) = None \<and>
   map respondent (rows (store_of
     (addComplaint (Some resident7) False 10 11 (handleSubmit filled_form) (empty_db, [])))) = [Some ''Juan''] \<and>
   map user_id (rows (store_of
     (addComplaint (Some resident7) False 10 11 (handleSubmit filled_form) (empty_db, [])))) = [Some 7] \<and>
   map c_respondent (snd (snd
     (addComplaint (Some resident7) False 10 11 (handleSubmit filled_form) (empty_db, [])))) = [Some ''Juan'']"
proof -
  note T = addComplaint_checks_no_field [of resident7 10 11 "handleSubmit filled_form" empty_db "[]"]
  from T obtain r where
    "rows (store_of (addComplaint (Some resident7) False 10 11 (handleSubmit filled_form) (empty_db, [])))
       = rows empty_db @ [r]"
    "snd (snd (addComplaint (Some resident7) False 10 11 (handleSubmit filled_form) (empty_db, [])))
       = [toComplaint r]"
    "respondent r = c_respondent (handleSubmit filled_form)"
    "user_id r = Some (uid resident7)"
    "c_respondent (toComplaint r) = c_respondent (handleSubmit filled_form)"
    by blast
  moreover from T have
    "fst (addComplaint (Some resident7) False 10 11 (handleSubmit filled_form) (empty_db, [])) = None"
    by blast
  moreover have "c_respondent (handleSubmit filled_form) = Some ''Juan''" by code_simp
  moreover have "uid resident7 = 7" by (simp add: resident7_def)
  ultimately show ?thesis by (simp add: empty_db_def)
qed

text \<open>
  C8 as the claim has it: \<open>date_submitted\<close> never exceeds \<open>updated_at\<close>. The first is the
  browser's clock when the complaint is built, the second the store's clock when the row
  is written. A browser whose clock is ahead of the store's produces a row that is
  submitted at 10 and updated at 5.
\<close>

theorem client_clock_ahead:
  "fst (addComplaint (Some resident7) False 10 5 noise_report (empty_db, [])) = None \<and>
   map date_submitted (rows (store_of (addComplaint (Some resident7) False 10 5 noise_report (empty_db, [])))) = [10] \<and>
   map updated_at (rows (store_of (addComplaint (Some resident7) False 10 5 noise_report (empty_db, [])))) = [5]"
  by code_simp

text \<open>
  C8, amended. \<open>updateComplaint\<close> never changes the \<open>date_submitted\<close> of any row, and a
  successful update leaves the row of that id with \<open>updated_at\<close> at the store's time of
  the call. \<open>addComplaint\<close> leaves the table as it was or appends one row, whose
  \<open>date_submitted\<close> is the browser's time and whose \<open>updated_at\<close> is the store's time.
  The order \<open>date_submitted \<le> updated_at\<close> of all rows is kept by a submission whose
  browser time is not ahead of the store's time, and by an update at a store time that is
  not behind any \<open>updated_at\<close> already stored.
\<close>

theorem timestamps_kept:
  "map date_submitted (rows (store_of (updateComplaint s now i u (d, cs)))) = map date_submitted (rows d) \<and>
   (fst (updateComplaint s now i u (d, cs)) = None \<longrightarrow>
      (\<exists>r \<in> set (rows (store_of (updateComplaint s now i u (d, cs)))). row_id r = i \<and> updated_at r = now)) \<and>
   (rows (store_of (addComplaint s g clientNow now cd (d, cs))) = rows d \<or>
    (\<exists>r. rows (store_of (addComplaint s g clientNow now cd (d, cs))) = rows d @ [r] \<and>
         date_submitted r = clientNow \<and> updated_at r = now)) \<and>
   ((\<forall>r \<in> set (rows d). date_submitted r \<le> updated_at r) \<and> clientNow \<le> now \<longrightarrow>
      (\<forall>r \<in> set (rows (store_of (addComplaint s g clientNow now cd (d, cs)))).
          date_submitted r \<le> updated_at r)) \<and>
   ((\<forall>r \<in> set (rows d). date_submitted r \<le> updated_at r \<and> updated_at r \<le> now) \<longrightarrow>
      (\<forall>r \<in> set (rows (store_of (updateComplaint s now i u (d, cs)))).
          date_submitted r \<le> updated_at r))"
proof (intro conjI impI)
  let ?U = "updateComplaint s now i u (d, cs)"
  let ?A = "addComplaint s g clientNow now cd (d, cs)"
  note upd = updateComplaint_rows [of s now i u d cs]
  note ins = addComplaint_rows [of s g clientNow now cd d cs]
  show "map date_submitted (rows (store_of ?U)) = map date_submitted (rows d)"
  proof -
    from upd consider "store_of ?U = d"
      | r where "filter (update_target s i) (rows d) = [r]"
          "rows (store_of ?U) = map (\<lambda>x. if update_target s i x
                     then update_updated_at_column now (set_columns (to_dbUpdates u) r) else x) (rows d)"
      by blast
    then show ?thesis
    proof cases
      case 1
      then show ?thesis by simp
    next
      case 2
      have "map date_submitted (map (\<lambda>x. if update_target s i x
                     then update_updated_at_column now (set_columns (to_dbUpdates u) r) else x) (rows d))
          = map date_submitted (rows d)"
        unfolding map_map by (rule map_cong) (auto dest: sole_target [OF 2(1)])
      with 2(2) show ?thesis by simp
    qed
  qed
  show "\<exists>r \<in> set (rows (store_of ?U)). row_id r = i \<and> updated_at r = now" if ok: "fst ?U = None"
  proof -
    from upd ok obtain r where r: "filter (update_target s i) (rows d) = [r]"
      and rs: "rows (store_of ?U) = map (\<lambda>x. if update_target s i x
                     then update_updated_at_column now (set_columns (to_dbUpdates u) r) else x) (rows d)"
      by auto
    from r have "r \<in> set (filter (update_target s i) (rows d))" by simp
    then have m: "r \<in> set (rows d)" and t: "update_target s i r" by simp_all
    from t have "row_id r = i" by (simp add: update_target_def)
    moreover from m t have "update_updated_at_column now (set_columns (to_dbUpdates u) r) \<in> set (rows (store_of ?U))"
      unfolding rs by (force simp: image_iff)
    ultimately show ?thesis by (intro bexI [of _ "update_updated_at_column now (set_columns (to_dbUpdates u) r)"]) simp_all
  qed
  show "rows (store_of ?A) = rows d \<or>
    (\<exists>r. rows (store_of ?A) = rows d @ [r] \<and> date_submitted r = clientNow \<and> updated_at r = now)"
    using ins by blast
  show "\<forall>r \<in> set (rows (store_of ?A)). date_submitted r \<le> updated_at r"
    if "(\<forall>r \<in> set (rows d). date_submitted r \<le> updated_at r) \<and> clientNow \<le> now"
    using ins that by auto
  show "\<forall>r \<in> set (rows (store_of ?U)). date_submitted r \<le> updated_at r"
    if inv: "\<forall>r \<in> set (rows d). date_submitted r \<le> updated_at r \<and> updated_at r \<le> now"
  proof -
    from upd consider "store_of ?U = d"
      | r where "filter (update_target s i) (rows d) = [r]"
          "rows (store_of ?U) = map (\<lambda>x. if update_target s i x
                     then update_updated_at_column now (set_columns (to_dbUpdates u) r) else x) (rows d)"
      by blast
    then show ?thesis
    proof cases
      case 1
      with inv show ?thesis by simp
    next
      case 2
      from 2(1) have "r \<in> set (filter (update_target s i) (rows d))" by simp
      then have "r \<in> set (rows d)" by simp
      with inv have "date_submitted r \<le> now" by force
      with inv show ?thesis unfolding 2(2) by auto
    qed
  qed
qed

text \<open>
  The complaint submitted at browser time 10 and stored at time 11, then updated at
  time 20.
\<close>

theorem timestamps_kept_witness:
  "map date_submitted (rows one_complaint_db) = [10] \<and>
   map updated_at (rows one_complaint_db) = [11] \<and>
   list_all (\<lambda>r. date_submitted r \<le> updated_at r) (rows one_complaint_db) \<and>
   map date_submitted (rows (store_of
     (updateComplaint (Some admin1) 20 0 (status_only ''resolved'') (one_complaint_db, [])))) = [10] \<and>
   list_all (\<lambda>r. date_submitted r \<le> updated_at r) (rows (store_of
     (updateComplaint (Some admin1) 20 0 (status_only ''resolved'') (one_complaint_db, []))))"
proof -
  have h1: "(\<forall>r \<in> set (rows empty_db). date_submitted r \<le> updated_at r) \<and> (10::nat) \<le> 11"
    by (simp add: empty_db_def)
  have h2: "\<forall>r \<in> set (rows one_complaint_db). date_submitted r \<le> updated_at r \<and> updated_at r \<le> 20"
    by code_simp
  have a: "\<forall>r \<in> set (rows one_complaint_db). date_submitted r \<le> updated_at r"
    using timestamps_kept [of "Some resident7" 11 0 "status_only ''resolved''" empty_db "[]" False 10 noise_report] h1
    unfolding one_complaint_db_def by blast
  have b: "\<forall>r \<in> set (rows (store_of
     (updateComplaint (Some admin1) 20 0 (status_only ''resolved'') (one_complaint_db, [])))). date_submitted r \<le> updated_at r"
    using timestamps_kept [of "Some admin1" 20 0 "status_only ''resolved''" one_complaint_db "[]" False 10 noise_report] h2
    by blast
  have c: "map date_submitted (rows (store_of
     (updateComplaint (Some admin1) 20 0 (status_only ''resolved'') (one_complaint_db, []))))
     = map date_submitted (rows one_complaint_db)"
    using timestamps_kept [of "Some admin1" 20 0 "status_only ''resolved''" one_complaint_db "[]" False 10 noise_report]
    by blast
  have d: "map date_submitted (rows one_complaint_db) = [10]" by code_simp
  have e: "map updated_at (rows one_complaint_db) = [11]" by code_simp
  show ?thesis using a b c d e by (simp add: list_all_iff)
qed

text \<open>
  C9. With the guest flag set the submission is stored as a guest record, with no owner
  and an anonymous handle, even when a resident is logged in. \<open>addComplaint\<close> does
  resolve the submitter that way and ignores the session, but the record is not stored:
  no \<open>SELECT\<close> policy lets the resident read a row without owner, so the insert, which
  returns its row, is refused. Ana, logged in and with the flag set, is resolved to
  \<open>Anonymous001\<close> and no owner, gets the error back, and the table stays empty.
\<close>

theorem guest_flag_with_resident_session:
  "role resident7 = None \<and>
   addComplaint_submitter (Some resident7) True empty_db = Inr (''Anonymous001'', None) \<and>
   addComplaint (Some resident7) True 10 11 noise_report (empty_db, [])
     = (Some ''Failed to submit complaint'', empty_db, [])"
  by code_simp

text \<open>
  C10. Neither path checks status or priority against the values the interface names.
  A submission by a logged-in caller stores whatever strings it carries in the two
  fields, and an admin's update of an existing request stores whatever strings it sets,
  both without error.
\<close>

theorem status_and_priority_unchecked:
  "fst (addComplaint (Some user) False clientNow now (cd\<lparr>c_status := v, c_priority := w\<rparr>) (d, cs)) = None \<and>
   (\<exists>r. rows (store_of (addComplaint (Some user) False clientNow now
                 (cd\<lparr>c_status := v, c_priority := w\<rparr>) (d, cs))) = rows d @ [r] \<and>
        status r = v \<and> priority r = w) \<and>
   (role user = Some ''admin'' \<and> filter (\<lambda>x. row_id x = i) (rows d) = [r0] \<and>
    \<not> no_columns (to_dbUpdates u) \<longrightarrow>
      fst (updateComplaint (Some user) now i u (d, cs)) = None \<and>
      (\<exists>r. filter (\<lambda>x. row_id x = i) (rows (store_of (updateComplaint (Some user) now i u (d, cs)))) = [r] \<and>
           status r = (case u_status u of None \<Rightarrow> status r0 | Some v' \<Rightarrow> v') \<and>
           priority r = (case u_priority u of None \<Rightarrow> priority r0 | Some w' \<Rightarrow> w')))"
proof (intro conjI impI)
  show "fst (addComplaint (Some user) False clientNow now (cd\<lparr>c_status := v, c_priority := w\<rparr>) (d, cs)) = None"
    by (simp add: addComplaint_session Let_def)
  show "\<exists>r. rows (store_of (addComplaint (Some user) False clientNow now
                 (cd\<lparr>c_status := v, c_priority := w\<rparr>) (d, cs))) = rows d @ [r] \<and>
        status r = v \<and> priority r = w"
    by (simp add: addComplaint_session Let_def store_of_def to_dbComplaint_def)
next
  assume a: "role user = Some ''admin'' \<and> filter (\<lambda>x. row_id x = i) (rows d) = [r0] \<and>
    \<not> no_columns (to_dbUpdates u)"
  then have ok: "own_row (Some user) r0 \<or> jwt_admin (Some user)" by (simp add: jwt_admin_def)
  from a have f: "filter (\<lambda>x. row_id x = i) (rows d) = [r0]"
    and n: "\<not> no_columns (to_dbUpdates u)" by simp_all
  note eq = updateComplaint_permitted [OF f ok n, of now cs]
  let ?r = "update_updated_at_column now (set_columns (to_dbUpdates u) r0)"
  have "r0 \<in> set (filter (\<lambda>x. row_id x = i) (rows d))" using f by simp
  then have "row_id ?r = i" by simp
  from filter_row_id_replaced [OF f this]
  have one: "filter (\<lambda>x. row_id x = i) (rows (store_of (updateComplaint (Some user) now i u (d, cs)))) = [?r]"
    by (simp add: eq store_of_def)
  show "fst (updateComplaint (Some user) now i u (d, cs)) = None" by (simp add: eq)
  have "status ?r = (case u_status u of None \<Rightarrow> status r0 | Some v' \<Rightarrow> v')"
    by (simp add: update_updated_at_column_def set_columns_def to_dbUpdates_def)
  moreover have "priority ?r = (case u_priority u of None \<Rightarrow> priority r0 | Some w' \<Rightarrow> w')"
    by (simp add: update_updated_at_column_def set_columns_def to_dbUpdates_def)
  ultimately show "\<exists>r. filter (\<lambda>x. row_id x = i) (rows (store_of (updateComplaint (Some user) now i u (d, cs)))) = [r] \<and>
           status r = (case u_status u of None \<Rightarrow> status r0 | Some v' \<Rightarrow> v') \<and>
           priority r = (case u_priority u of None \<Rightarrow> priority r0 | Some w' \<Rightarrow> w')"
    using one by simp
qed

text \<open>The status \<open>banana\<close> and the priority \<open>urgent\<close> are stored as they come.\<close>

theorem status_and_priority_unchecked_witness:
  "fst (addComplaint (Some resident7) False 10 11
          (noise_report\<lparr>c_status := ''banana'', c_priority := ''urgent''\<rparr>) (empty_db, [])) = None \<and>
   map status (rows (store_of (addComplaint (Some resident7) False 10 11
          (noise_report\<lparr>c_status := ''banana'', c_priority := ''urgent''\<rparr>) (empty_db, [])))) = [''banana''] \<and>
   map priority (rows (store_of (addComplaint (Some resident7) False 10 11
          (noise_report\<lparr>c_status := ''banana'', c_priority := ''urgent''\<rparr>) (empty_db, [])))) = [''urgent''] \<and>
   fst (updateComplaint (Some admin1) 20 0 (status_only ''banana'') (one_complaint_db, [])) = None \<and>
   map status (filter (\<lambda>x. row_id x = 0) (rows (store_of
      (updateComplaint (Some admin1) 20 0 (status_only ''banana'') (one_complaint_db, []))))) = [''banana'']"
proof -
  note T = status_and_priority_unchecked
    [where user = resident7 and clientNow = 10 and now = 11 and cd = noise_report
       and v = "''banana''" and w = "''urgent''" and d = empty_db and cs = "[]"]
  note U = status_and_priority_unchecked
    [where user = admin1 and now = 20 and d = one_complaint_db and cs = "[]" and i = 0
       and ?r0.0 = ana_row and u = "status_only ''banana''"]
  have h: "role admin1 = Some ''admin'' \<and> filter (\<lambda>x. row_id x = 0) (rows one_complaint_db) = [ana_row] \<and>
    \<not> no_columns (to_dbUpdates (status_only ''banana''))" by code_simp
  from T obtain r where
    "rows (store_of (addComplaint (Some resident7) False 10 11
          (noise_report\<lparr>c_status := ''banana'', c_priority := ''urgent''\<rparr>) (empty_db, []))) = rows empty_db @ [r]"
    "status r = ''banana''" "priority r = ''urgent''" by blast
  moreover from T have "fst (addComplaint (Some resident7) False 10 11
          (noise_report\<lparr>c_status := ''banana'', c_priority := ''urgent''\<rparr>) (empty_db, [])) = None" by blast
  moreover from U h have "fst (updateComplaint (Some admin1) 20 0 (status_only ''banana'') (one_complaint_db, [])) = None"
    by blast
  moreover from U h obtain r' where
    "filter (\<lambda>x. row_id x = 0) (rows (store_of
      (updateComplaint (Some admin1) 20 0 (status_only ''banana'') (one_complaint_db, [])))) = [r']"
    "status r' = (case u_status (status_only ''banana'') of None \<Rightarrow> status ana_row | Some v' \<Rightarrow> v')"
    by blast
  ultimately show ?thesis by (simp add: empty_db_def status_only_def)
qed

end
